theory Spec2Isabelle
  imports Complex_Main "HOL-Library.Word" "HOL-Library.Sublist"
begin

unbundle bit_operations_syntax

section \<open>Data model of the Volcano Hybrid device object\<close>

text \<open>
  The Python class \<open>VolcanoHybrid\<close> (volcano.py) keeps the device state in attributes of
  \<open>self\<close>. The record below has one field per attribute that the modelled methods
  read or write; the leading underscore of the Python names is dropped. Python integers
  are \<open>int\<close>, the readings of \<open>time.time()\<close> are \<open>real\<close>, \<open>bytes\<close> values are lists
  of 8-bit words, and the source tags (\<open>"init"\<close>, \<open>"user_command"\<close>, ...) stay strings.
  \<open>client\<close> records whether \<open>self.client\<close> is set. The \<open>*_raw\<close> debugging attributes
  hold \<open>value.hex() if value else None\<close>; the model keeps the bytes themselves in
  place of their hexadecimal rendering.
\<close>

type_synonym byte = "8 word"

datatype error = ConnectionError | TimeoutError | BleakError | StructError
  | IndexError | AttributeError | CancelledError

type_synonym command = "string \<times> byte list \<times> nat"

record volcano =
  client :: bool
  current_temperature :: int
  target_temperature :: int
  heater_on :: bool
  fan_on :: bool
  brightness :: int
  is_connected :: bool
  last_command_time :: real
  last_heater_change_time :: real
  heater_change_source :: string
  auto_off_time_seconds :: int
  command_queue :: "command list"
  processing_commands :: bool
  command_processor_running :: bool
  futures :: "nat \<Rightarrow> (error + bool) option"
  temp_cache_time :: real
  temp_cache_duration :: real
  current_temperature_raw :: "byte list option"
  target_temperature_raw :: "byte list option"
  register_one_raw :: "byte list option"
  auto_off_time_raw :: "byte list option"

text \<open>The state built by \<open>__init__\<close>.\<close>

definition init_volcano :: volcano where
  "init_volcano =
     \<lparr> client = False, current_temperature = 0, target_temperature = 0,
       heater_on = False, fan_on = False, brightness = 70, is_connected = False,
       last_command_time = 0, last_heater_change_time = 0,
       heater_change_source = ''init'', auto_off_time_seconds = 0,
       command_queue = [], processing_commands = False,
       command_processor_running = False, futures = (\<lambda>_. None),
       temp_cache_time = 0, temp_cache_duration = 1,
       current_temperature_raw = None, target_temperature_raw = None,
       register_one_raw = None, auto_off_time_raw = None \<rparr>"

text \<open>\<open>value.hex() if value else None\<close>: an empty value is stored as \<open>None\<close>.\<close>

definition raw_of :: "byte list \<Rightarrow> byte list option" where
  "raw_of v = (if v = [] then None else Some v)"

section \<open>Notification decoding\<close>

text \<open>
  \<open>data[0] + (data[1] * 256)\<close>, the expression that \<open>_process_notification\<close> and the
  temperature readers apply to a payload of at least two bytes.
\<close>

definition decoded_value :: "byte list \<Rightarrow> int" where
  "decoded_value d = uint (d ! 0) + uint (d ! 1) * 256"

text \<open>
  \<open>_process_notification(data, source)\<close>. \<open>data\<close> may be \<open>None\<close>; \<open>now\<close> is the
  reading of \<open>time.time()\<close> during the call (the method reads the clock once for the
  override test and once more for the cache timestamp; both readings are \<open>now\<close>).
\<close>

definition heater_update_allowed :: "string \<Rightarrow> real \<Rightarrow> volcano \<Rightarrow> bool" where
  "heater_update_allowed source now s \<longleftrightarrow>
     source = ''user_command'' \<or> now - last_heater_change_time s > 5
       \<or> heater_change_source s \<noteq> ''user_command''"

definition process_notification ::
  "byte list option \<Rightarrow> string \<Rightarrow> real \<Rightarrow> volcano \<Rightarrow> volcano" where
  "process_notification data source now s =
     (case data of
        None \<Rightarrow> s
      | Some d \<Rightarrow>
          if d = [] \<or> length d < 2 then s
          else
            let v = decoded_value d;
                unmasked_fan_on_value = v AND 0x2000;
                unmasked_heat_on_value = v AND 0x0020;
                s1 = (if heater_update_allowed source now s
                      then s\<lparr>heater_on := unmasked_heat_on_value \<noteq> 0\<rparr>
                      else s);
                s2 = s1\<lparr>fan_on := unmasked_fan_on_value \<noteq> 0\<rparr>;
                temp_value = drop_bit 8 (v AND 0xFF00)
            in if 40 \<le> temp_value \<and> temp_value \<le> 230
               then s2\<lparr>current_temperature := temp_value, temp_cache_time := now\<rparr>
               else s2)"

text \<open>
  \<open>_notification_handler(sender, data)\<close>: stores the raw payload, processes it with
  source \<open>"notification"\<close>, and records a heater change made by the notification.
\<close>

definition notification_handler :: "byte list option \<Rightarrow> real \<Rightarrow> volcano \<Rightarrow> volcano" where
  "notification_handler data now s =
     (let s0 = s\<lparr>register_one_raw := (case data of None \<Rightarrow> None | Some d \<Rightarrow> raw_of d)\<rparr>;
          old_heater_state = heater_on s0;
          s1 = process_notification data ''notification'' now s0
      in if old_heater_state \<noteq> heater_on s1
         then s1\<lparr>last_heater_change_time := now, heater_change_source := ''notification''\<rparr>
         else s1)"

text \<open>
  \<open>turn_heater_on\<close> and \<open>turn_heater_off\<close>. \<open>sent\<close> is the outcome of
  \<open>await self._send_command(...)\<close> and \<open>s\<close> the device state when that await
  returns; an exception leaves the method before any attribute is assigned.
\<close>

definition turn_heater_on :: "error + bool \<Rightarrow> real \<Rightarrow> volcano \<Rightarrow> error + volcano" where
  "turn_heater_on sent now s =
     (case sent of
        Inl e \<Rightarrow> Inl e
      | Inr _ \<Rightarrow> Inr (s\<lparr>heater_on := True, last_heater_change_time := now,
                         heater_change_source := ''user_command''\<rparr>))"

definition turn_heater_off :: "error + bool \<Rightarrow> real \<Rightarrow> volcano \<Rightarrow> error + volcano" where
  "turn_heater_off sent now s =
     (case sent of
        Inl e \<Rightarrow> Inl e
      | Inr _ \<Rightarrow> Inr (s\<lparr>heater_on := False, last_heater_change_time := now,
                         heater_change_source := ''user_command''\<rparr>))"

text \<open>The first two bytes of a payload read as a little-endian 16-bit word.\<close>

definition le16 :: "byte list \<Rightarrow> 16 word" where
  "le16 d = word_cat (d ! 1) (d ! 0)"


text \<open>A state in which the user switched the heater on at time 100.\<close>

definition recent_user_state :: volcano where
  "recent_user_state = init_volcano\<lparr>heater_on := True, last_heater_change_time := 100,
      heater_change_source := ''user_command''\<rparr>"

section \<open>The transport as seen by the device object\<close>

text \<open>
  The GATT client (bleak) is outside the repository. Every awaited transport call is
  modelled by its outcome, passed in as an argument: a read yields the bytes or the
  exception it raised. \<open>CancelledError\<close> is what an await raises when an enclosing
  \<open>asyncio.timeout\<close> expires; it is not an \<open>Exception\<close>, so only the
  \<open>asyncio.timeout\<close> block itself turns it into a \<open>TimeoutError\<close>. A call on
  \<open>self.client\<close> while it is \<open>None\<close> raises \<open>AttributeError\<close>.
\<close>

type_synonym read_result = "error + byte list"

definition read_gatt_char :: "volcano \<Rightarrow> read_result \<Rightarrow> read_result" where
  "read_gatt_char s r = (if client s then r else Inl AttributeError)"

definition write_gatt_char :: "volcano \<Rightarrow> error + unit \<Rightarrow> error + unit" where
  "write_gatt_char s r = (if client s then r else Inl AttributeError)"

text \<open>
  \<open>connect\<close> performs scans, retries and several reads; here it is represented by what it
  leaves behind: the state after the call and whether it returned \<open>True\<close>, returned
  \<open>False\<close> or was left by an exception.
\<close>

datatype connect_outcome =
  ConnectOk volcano | ConnectFailed volcano | ConnectRaised error volcano

text \<open>\<open>_ensure_connected\<close>: an error result carries the state at the time of the raise.\<close>

definition ensure_connected :: "connect_outcome \<Rightarrow> volcano \<Rightarrow> (error \<times> volcano) + volcano" where
  "ensure_connected conn s =
     (if \<not> is_connected s then
        (case conn of
           ConnectOk s' \<Rightarrow> Inr s'
         | ConnectFailed s' \<Rightarrow> Inl (ConnectionError, s')
         | ConnectRaised e s' \<Rightarrow> Inl (e, s'))
      else Inr s)"

section \<open>Temperature encoding and decoding\<close>

text \<open>
  \<open>round(decoded_value / 10)\<close>: Python divides to a float and rounds it half to even.
  For the 16-bit values decoded here the quotient is exact up to one rounding of the
  division, which never crosses a half, so the result is the integer computed below.
\<close>

definition py_round_div10 :: "int \<Rightarrow> int" where
  "py_round_div10 n =
     (let q = n div 10; r = n mod 10
      in if r < 5 then q else if r > 5 then q + 1 else if even q then q else q + 1)"

text \<open>\<open>struct.pack('<I', x)\<close>: four bytes, least significant first; out of range raises.\<close>

definition pack_u32_le :: "int \<Rightarrow> error + byte list" where
  "pack_u32_le x =
     (if 0 \<le> x \<and> x < 2 ^ 32
      then Inr [word_of_int x, word_of_int (x div 2 ^ 8), word_of_int (x div 2 ^ 16),
                word_of_int (x div 2 ^ 24)]
      else Inl StructError)"

text \<open>\<open>struct.pack('<H', x)\<close>.\<close>

definition pack_u16_le :: "int \<Rightarrow> error + byte list" where
  "pack_u16_le x =
     (if 0 \<le> x \<and> x < 2 ^ 16
      then Inr [word_of_int x, word_of_int (x div 2 ^ 8)]
      else Inl StructError)"

text \<open>
  \<open>set_target_temperature(temperature)\<close>. \<open>sent\<close> is the outcome of
  \<open>await self._send_command(self.target_temp_uuid, packed_data)\<close> and \<open>s\<close> the device
  state when that await returns; on success the result holds the payload that was
  submitted and the new state.
\<close>

definition set_target_temperature ::
  "int \<Rightarrow> error + bool \<Rightarrow> volcano \<Rightarrow> error + (byte list \<times> volcano)" where
  "set_target_temperature t sent s =
     (let temperature = max 40 (min 230 t)
      in case pack_u32_le (temperature * 10) of
           Inl e \<Rightarrow> Inl e
         | Inr packed_data \<Rightarrow>
             (case sent of
                Inl e \<Rightarrow> Inl e
              | Inr _ \<Rightarrow> Inr (packed_data, s\<lparr>target_temperature := temperature\<rparr>)))"

text \<open>\<open>set_brightness(brightness)\<close>.\<close>

definition set_brightness ::
  "int \<Rightarrow> error + bool \<Rightarrow> volcano \<Rightarrow> error + (byte list \<times> volcano)" where
  "set_brightness b sent s =
     (let b' = max 0 (min 100 b)
      in case pack_u16_le b' of
           Inl e \<Rightarrow> Inl e
         | Inr packed_data \<Rightarrow>
             (case sent of
                Inl e \<Rightarrow> Inl e
              | Inr _ \<Rightarrow> Inr (packed_data, s\<lparr>brightness := b'\<rparr>)))"

text \<open>
  \<open>_fast_read_target_temperature\<close>. \<open>rd\<close> is the outcome of the awaited
  \<open>read_gatt_char(self.target_temp_uuid)\<close> under \<open>wait_for\<close>. The body of the outer
  \<open>try\<close> is a function of its own; the wrapper is the \<open>except Exception\<close>.
\<close>

definition fast_read_target_body ::
  "read_result \<Rightarrow> real \<Rightarrow> volcano \<Rightarrow> error + (int \<times> volcano)" where
  "fast_read_target_body rd now s =
     (if \<not> is_connected s \<or> \<not> client s then Inl ConnectionError
      else case read_gatt_char s rd of
             Inl e \<Rightarrow> Inr (target_temperature s, s)
           | Inr v \<Rightarrow>
               let s1 = s\<lparr>last_command_time := now, target_temperature_raw := raw_of v\<rparr>
               in if length v \<ge> 2
                  then let temperature = py_round_div10 (decoded_value v)
                       in Inr (temperature, s1\<lparr>target_temperature := temperature\<rparr>)
                  else Inr (target_temperature s1, s1))"

definition fast_read_target_temperature ::
  "read_result \<Rightarrow> real \<Rightarrow> volcano \<Rightarrow> error + (int \<times> volcano)" where
  "fast_read_target_temperature rd now s =
     (case fast_read_target_body rd now s of
        Inl e \<Rightarrow> Inr (target_temperature s, s)
      | Inr r \<Rightarrow> Inr r)"

text \<open>
  \<open>read_target_temperature\<close>: the fast read first; when it gives nothing positive, the
  full read under \<open>asyncio.timeout(3)\<close>. \<open>r1\<close> and \<open>r2\<close> are the outcomes of the two
  transport reads, \<open>conn\<close> that of the \<open>connect\<close> made by \<open>_ensure_connected\<close>.
\<close>

definition read_target_full ::
  "connect_outcome \<Rightarrow> read_result \<Rightarrow> real \<Rightarrow> volcano \<Rightarrow> error + (int \<times> volcano)" where
  "read_target_full conn r2 now s =
     (case ensure_connected conn s of
        Inl (e, s') \<Rightarrow> Inr (target_temperature s', s')
      | Inr s1 \<Rightarrow>
          (case read_gatt_char s1 r2 of
             Inl e \<Rightarrow> Inr (target_temperature s1, s1)
           | Inr v \<Rightarrow>
               let s2 = s1\<lparr>last_command_time := now, target_temperature_raw := raw_of v\<rparr>
               in if length v \<ge> 2
                  then let temperature = py_round_div10 (decoded_value v)
                       in Inr (temperature, s2\<lparr>target_temperature := temperature\<rparr>)
                  else Inr (target_temperature s2, s2)))"

definition read_target_temperature ::
  "read_result \<Rightarrow> connect_outcome \<Rightarrow> read_result \<Rightarrow> real \<Rightarrow> volcano
     \<Rightarrow> error + (int \<times> volcano)" where
  "read_target_temperature r1 conn r2 now s =
     (case fast_read_target_temperature r1 now s of
        Inl e \<Rightarrow> read_target_full conn r2 now s
      | Inr (temp, s1) \<Rightarrow>
          if temp > 0 then Inr (temp, s1) else read_target_full conn r2 now s1)"


section \<open>Reading the current temperature\<close>

text \<open>
  \<open>_fast_read_current_temperature\<close>. A cached value younger than
  \<open>_temp_cache_duration\<close> is returned without a read. Otherwise the body of the outer
  \<open>try\<close> reads the characteristic (\<open>rd\<close> is the outcome of the read under
  \<open>wait_for\<close>), and the wrapper is the outer \<open>except Exception\<close>.
\<close>

definition fast_read_current_body ::
  "read_result \<Rightarrow> real \<Rightarrow> volcano \<Rightarrow> error + (int \<times> volcano)" where
  "fast_read_current_body rd now s =
     (if \<not> is_connected s \<or> \<not> client s then Inl ConnectionError
      else case read_gatt_char s rd of
             Inl e \<Rightarrow> Inr (current_temperature s, s)
           | Inr v \<Rightarrow>
               let s1 = s\<lparr>last_command_time := now, current_temperature_raw := raw_of v\<rparr>
               in if length v \<ge> 2
                  then let temperature = py_round_div10 (decoded_value v)
                       in if temperature > 1000 \<or> temperature < 0
                          then Inr (current_temperature s1, s1)
                          else Inr (temperature,
                                 s1\<lparr>current_temperature := temperature, temp_cache_time := now\<rparr>)
                  else Inr (current_temperature s1, s1))"

definition fast_read_current_temperature ::
  "read_result \<Rightarrow> real \<Rightarrow> volcano \<Rightarrow> error + (int \<times> volcano)" where
  "fast_read_current_temperature rd now s =
     (if now - temp_cache_time s < temp_cache_duration s
      then Inr (current_temperature s, s)
      else case fast_read_current_body rd now s of
             Inl e \<Rightarrow> Inr (current_temperature s, s)
           | Inr r \<Rightarrow> Inr r)"





text \<open>A connected device with nothing cached yet, and one whose cache holds 185.\<close>

definition connected_fresh :: volcano where
  "connected_fresh = init_volcano\<lparr>client := True, is_connected := True\<rparr>"



section \<open>Auto-off time\<close>

text \<open>
  \<open>_characteristic_exists(uuid)\<close>: \<open>present\<close> says whether the service table of the
  client lists the characteristic.
\<close>

definition characteristic_exists :: "bool \<Rightarrow> volcano \<Rightarrow> bool" where
  "characteristic_exists present s =
     (if \<not> is_connected s \<or> \<not> client s then False else present)"

text \<open>
  The decoding of the auto-off value in \<open>_read_device_information\<close>, from the test
  \<open>if auto_off_value and len(auto_off_value) >= 2\<close> to the assignment of
  \<open>_auto_off_time_seconds\<close>. The branches are kept in the order of the source, the
  one for a single byte included.
\<close>

definition auto_off_seconds :: "byte list option \<Rightarrow> int" where
  "auto_off_seconds auto_off_value =
     (case auto_off_value of
        None \<Rightarrow> 30 * 60
      | Some v \<Rightarrow>
          if v \<noteq> [] \<and> length v \<ge> 2 then
            let minutes =
                  (if length v = 1 then uint (v ! 0)
                   else let m = decoded_value v
                        in if m > 180 then (if m mod 60 = 0 then m div 60 else m) else m);
                minutes' = (if minutes < 1 \<or> minutes > 180 then 30 else minutes)
            in minutes' * 60
          else 30 * 60)"

text \<open>
  The auto-off part of \<open>_read_device_information\<close>: the setting characteristic is tried
  first, the auto-shutoff characteristic when that gave nothing. \<open>r_setting\<close> and
  \<open>r_shutoff\<close> are the outcomes of the two reads; a failed read leaves
  \<open>auto_off_value\<close> as it was.
\<close>

definition read_auto_off_time ::
  "bool \<Rightarrow> read_result \<Rightarrow> bool \<Rightarrow> read_result \<Rightarrow> volcano \<Rightarrow> volcano" where
  "read_auto_off_time has_setting r_setting has_shutoff r_shutoff s =
     (let v1 = (if characteristic_exists has_setting s
                then (case read_gatt_char s r_setting of Inl e \<Rightarrow> None | Inr v \<Rightarrow> Some v)
                else None);
          v2 = (if (v1 = None \<or> v1 = Some []) \<and> characteristic_exists has_shutoff s
                then (case read_gatt_char s r_shutoff of Inl e \<Rightarrow> v1 | Inr v \<Rightarrow> Some v)
                else v1)
      in s\<lparr>auto_off_time_raw := (case v2 of None \<Rightarrow> None | Some v \<Rightarrow> raw_of v),
            auto_off_time_seconds := auto_off_seconds v2\<rparr>)"

section \<open>Reconnection\<close>







section \<open>Brightness animation\<close>

text \<open>
  One pass through the body of \<open>while self._is_animating\<close> in \<open>_animation_loop\<close>
  (coordinator.py), up to the call of \<open>set_brightness\<close>. The local variables are
  \<open>brightness\<close>, \<open>increment\<close> and \<open>sleep_time\<close>; \<open>None\<close> is the \<open>break\<close> of an
  unknown animation type.
\<close>

definition ANIMATION_BLINKING :: string where "ANIMATION_BLINKING = ''blinking''"
definition ANIMATION_BREATHING :: string where "ANIMATION_BREATHING = ''breathing''"
definition ANIMATION_ASCENDING :: string where "ANIMATION_ASCENDING = ''ascending''"
definition ANIMATION_DESCENDING :: string where "ANIMATION_DESCENDING = ''descending''"

definition animation_step ::
  "string \<Rightarrow> int \<times> bool \<times> real \<Rightarrow> (int \<times> bool \<times> real) option" where
  "animation_step animation_type st =
     (case st of (b, increment, sleep_time) \<Rightarrow>
        if animation_type = ANIMATION_BLINKING
        then Some (if b = 100 then 0 else 100, increment, 1 / 2)
        else if animation_type = ANIMATION_BREATHING
        then let b1 = b + (if increment then 8 else - 8);
                 increment' = (if b1 \<ge> 100 \<or> b1 \<le> 0 then \<not> increment else increment)
             in Some (min (max b1 0) 100, increment', sleep_time)
        else if animation_type = ANIMATION_ASCENDING
        then let b1 = (if b \<ge> 100 then - 8 else b)
             in Some (min (8 + b1) 100, increment, sleep_time)
        else if animation_type = ANIMATION_DESCENDING
        then let b1 = (if b \<le> 0 then 100 + 8 else b)
             in Some (max (b1 - 8) 0, increment, sleep_time)
        else None)"

text \<open>
  The local variables after \<open>n\<close> passes of the loop, which starts from brightness 0,
  \<open>increment = True\<close> and a sleep time of 0.1 s. The brightness of the state after pass
  \<open>n\<close> is the value that pass hands to \<open>set_brightness\<close>.
\<close>

fun animation_state :: "string \<Rightarrow> nat \<Rightarrow> (int \<times> bool \<times> real) option" where
  "animation_state animation_type 0 = Some (0, True, 1 / 10)"
| "animation_state animation_type (Suc n) =
     (case animation_state animation_type n of
        None \<Rightarrow> None
      | Some st \<Rightarrow> animation_step animation_type st)"

section \<open>Command queue\<close>

text \<open>
  \<open>_execute_command\<close>: \<open>conn\<close> is the outcome of the \<open>connect\<close> that
  \<open>_ensure_connected\<close> makes when the link is down, \<open>wr\<close> that of \<open>write_gatt_char\<close>.
  An \<open>Exception\<close> raised by the write marks the connection down before it is re-raised.
\<close>

definition execute_command ::
  "string \<Rightarrow> byte list \<Rightarrow> connect_outcome \<Rightarrow> error + unit \<Rightarrow> real \<Rightarrow> volcano
     \<Rightarrow> (error \<times> volcano) + (bool \<times> volcano)" where
  "execute_command characteristic_uuid data conn wr now s =
     (case ensure_connected conn s of
        Inl (e, s') \<Rightarrow> Inl (e, s')
      | Inr s1 \<Rightarrow>
          (case write_gatt_char s1 wr of
             Inl e \<Rightarrow>
               if e = CancelledError then Inl (e, s1)
               else Inl (e, s1\<lparr>is_connected := False\<rparr>)
           | Inr _ \<Rightarrow> Inr (True, s1\<lparr>last_command_time := now\<rparr>)))"

text \<open>
  What the environment contributes to one pass of the loop in \<open>_process_command_queue\<close>:
  the clock, and the outcomes of the \<open>connect\<close> and of the write that the pass may make.
\<close>

record tick =
  tick_now :: real
  tick_connect :: connect_outcome
  tick_write :: "error + unit"

text \<open>
  \<open>_process_command_queue\<close>, one list element per pass of
  \<open>while self._processing_commands and self._is_connected\<close>. A command is a triple of
  characteristic, payload and the number of its future; \<open>futures\<close> maps that number to
  the result or exception set on it. The result is \<open>Some\<close> state when the loop has
  ended, and \<open>None\<close> when it is still running after the passes given. The rate-limit
  sleeps only delay a pass and are left out. A \<open>CancelledError\<close> is not caught by
  \<open>except Exception\<close> and ends the task. The future of a command is taken to be
  pending when the command is executed.
\<close>

fun process_command_queue :: "tick list \<Rightarrow> volcano \<Rightarrow> volcano option" where
  "process_command_queue [] s =
     (if processing_commands s \<and> is_connected s then None
      else Some (s\<lparr>command_processor_running := False\<rparr>))"
| "process_command_queue (t # ts) s =
     (if processing_commands s \<and> is_connected s then
        (case command_queue s of
           [] \<Rightarrow> process_command_queue ts s
         | (uuid, data, future) # rest \<Rightarrow>
             (case execute_command uuid data (tick_connect t) (tick_write t) (tick_now t)
                     (s\<lparr>command_queue := rest\<rparr>) of
                Inr (result, s1) \<Rightarrow>
                  process_command_queue ts (s1\<lparr>futures := (futures s1)(future \<mapsto> Inr result)\<rparr>)
              | Inl (e, s1) \<Rightarrow>
                  if e = CancelledError then Some (s1\<lparr>command_processor_running := False\<rparr>)
                  else process_command_queue ts
                         (s1\<lparr>futures := (futures s1)(future \<mapsto> Inl e)\<rparr>)))
      else Some (s\<lparr>command_processor_running := False\<rparr>))"

text \<open>
  \<open>_start_command_processor\<close> and \<open>_queue_command\<close> up to its \<open>await future\<close>.
  \<open>command_processor_running\<close> stands for a task that exists and is not done.
\<close>

definition start_command_processor :: "volcano \<Rightarrow> volcano" where
  "start_command_processor s =
     (if \<not> command_processor_running s
      then s\<lparr>processing_commands := True, command_processor_running := True\<rparr>
      else s)"

definition queue_command :: "command \<Rightarrow> volcano \<Rightarrow> volcano" where
  "queue_command c s =
     (let s1 = s\<lparr>command_queue := command_queue s @ [c]\<rparr>
      in if \<not> processing_commands s1 then start_command_processor s1 else s1)"

text \<open>Two of the characteristics, a running processor with two queued commands, and passes
  whose write fails or succeeds.\<close>

definition heat_on_uuid :: string where
  "heat_on_uuid = ''1011000f-5354-4f52-5a26-4249434b454c''"

definition fan_on_uuid :: string where
  "fan_on_uuid = ''10110013-5354-4f52-5a26-4249434b454c''"

definition two_queued :: volcano where
  "two_queued = connected_fresh\<lparr>processing_commands := True, command_processor_running := True,
      command_queue := [(heat_on_uuid, [0], 0), (fan_on_uuid, [0], 1)]\<rparr>"

definition failing_pass :: tick where
  "failing_pass = \<lparr>tick_now = 10, tick_connect = ConnectFailed two_queued,
      tick_write = Inl BleakError\<rparr>"

definition working_pass :: tick where
  "working_pass = \<lparr>tick_now = 11, tick_connect = ConnectOk two_queued, tick_write = Inr ()\<rparr>"

section \<open>Properties of the notification decoder\<close>

lemma uint_byte_bounds: "0 \<le> uint (a::byte) \<and> uint a < 256"
  using uint_lt2p [of a] by simp

lemma uint_cat16:
  "uint (word_cat (a::byte) (b::byte) :: 16 word) = uint b + uint a * 256"
proof -
  have a: "0 \<le> uint a \<and> uint a < 256" and b: "0 \<le> uint b \<and> uint b < 256"
    by (rule uint_byte_bounds)+
  have tb: "take_bit 8 (uint b) = uint b"
    using b by (simp add: take_bit_int_eq_self)
  have c: "concat_bit 8 (uint b) (uint a) = uint b + uint a * 256"
    by (simp add: concat_bit_eq tb push_bit_eq_mult)
  have r: "0 \<le> uint b + uint a * 256 \<and> uint b + uint a * 256 < 2 ^ 16"
    using a b by simp
  have "(word_cat a b :: 16 word) = word_of_int (concat_bit 8 (uint b) (uint a))"
    by (subst word_cat_eq') simp
  then have "uint (word_cat a b :: 16 word) = take_bit 16 (uint b + uint a * 256)"
    by (simp only: c uint_word_of_int_eq) simp
  also have "\<dots> = uint b + uint a * 256"
    using r by (simp add: take_bit_int_eq_self)
  finally show ?thesis .
qed

lemma decoded_value_le16: "decoded_value d = uint (le16 d)"
  by (simp add: decoded_value_def le16_def uint_cat16)

lemma le16_Cons: "le16 (a # b # r) = word_of_int (uint a + uint b * 256)"
proof -
  have "uint (le16 (a # b # r)) = uint a + uint b * 256"
    by (simp add: le16_def uint_cat16)
  then show ?thesis
    by (metis word_of_int_uint)
qed

lemma fan_bit_word: "(uint (w::16 word) AND 0x2000 \<noteq> 0) = (w AND 0x2000 \<noteq> 0)"
proof -
  have "uint (w AND 0x2000) = uint w AND 0x2000"
    by (simp add: uint_and)
  then show ?thesis
    by (metis uint_0_iff)
qed

lemma heat_bit_word: "(uint (w::16 word) AND 0x0020 \<noteq> 0) = (w AND 0x0020 \<noteq> 0)"
proof -
  have "uint (w AND 0x0020) = uint w AND 0x0020"
    by (simp add: uint_and)
  then show ?thesis
    by (metis uint_0_iff)
qed

lemma fan_on_process:
  "2 \<le> length d \<Longrightarrow>
   fan_on (process_notification (Some d) source now s) = (le16 d AND 0x2000 \<noteq> 0)"
  by (auto simp add: process_notification_def Let_def decoded_value_le16 fan_bit_word)

lemma heater_on_process:
  "2 \<le> length d \<Longrightarrow>
   heater_on (process_notification (Some d) source now s) =
     (if heater_update_allowed source now s then le16 d AND 0x0020 \<noteq> 0 else heater_on s)"
  by (auto simp add: process_notification_def Let_def decoded_value_le16 heat_bit_word)

lemma notification_after_user_command:
  assumes "turn_heater_on sent t0 s = Inr s'" and "2 \<le> length d"
  shows "heater_on (process_notification (Some d) ''notification'' now s') =
      (if now - t0 > 5 then le16 d AND 0x0020 \<noteq> 0 else True)"
  using assms
  by (auto simp add: turn_heater_on_def heater_on_process heater_update_allowed_def
      split: sum.splits)

text \<open>
  Claim C8. A payload that is \<open>None\<close>, empty or one byte long is rejected:
  \<open>_process_notification\<close> returns the state it was given, so the heater flag, the fan
  flag, the current temperature and the cache timestamp are all as before.
\<close>

theorem short_payload_leaves_state:
  assumes "case data of None \<Rightarrow> True | Some d \<Rightarrow> length d < 2"
  shows "process_notification data source now s = s"
  using assms by (simp add: process_notification_def split: option.splits)

theorem short_payload_leaves_state_witness:
  "length [0x20 :: byte] < 2 \<and>
   process_notification (Some [0x20]) ''notification'' 7 init_volcano = init_volcano \<and>
   process_notification None ''notification'' 7 init_volcano = init_volcano \<and>
   process_notification (Some []) ''user_command'' 7 init_volcano = init_volcano"
  using short_payload_leaves_state [of "Some [0x20]" "''notification''" 7 init_volcano]
    short_payload_leaves_state [of None "''notification''" 7 init_volcano]
    short_payload_leaves_state [of "Some []" "''user_command''" 7 init_volcano]
  by simp

text \<open>
  Claim C10. For a payload of at least two bytes the fan flag is set from bit \<open>0x2000\<close>
  of the little-endian word whatever the source is, and this also holds when the override
  window keeps the heater flag of the same payload from being applied.
\<close>

theorem fan_flag_not_protected:
  assumes "2 \<le> length d"
  shows "fan_on (process_notification (Some d) source now s) = (le16 d AND 0x2000 \<noteq> 0)
    \<and> (\<not> (source = ''user_command'' \<or> now - last_heater_change_time s > 5
             \<or> heater_change_source s \<noteq> ''user_command'')
         \<longrightarrow> heater_on (process_notification (Some d) source now s) = heater_on s)"
  using assms by (simp add: fan_on_process heater_on_process heater_update_allowed_def)

theorem fan_flag_not_protected_witness:
  "2 \<le> length [0x00, 0x20 :: byte] \<and>
   fan_on (process_notification (Some [0x00, 0x20]) ''notification'' 103 recent_user_state) \<and>
   heater_on (process_notification (Some [0x00, 0x20]) ''notification'' 103 recent_user_state)"
  using fan_flag_not_protected [of "[0x00, 0x20]" "''notification''" 103 recent_user_state]
  by (simp add: le16_Cons recent_user_state_def init_volcano_def)

text \<open>
  Claim C1. For a payload of at least two bytes processed with source
  \<open>"notification"\<close>, the heater flag becomes bit \<open>0x0020\<close> of the payload exactly when
  more than 5 seconds have passed since the recorded heater change or the recorded source
  of that change is not \<open>"user_command"\<close>; otherwise it keeps its value. With source
  \<open>"user_command"\<close> the flag is always taken from the payload.
\<close>

theorem override_protection:
  assumes "2 \<le> length d"
  shows "heater_on (process_notification (Some d) ''notification'' now s) =
      (if now - last_heater_change_time s > 5 \<or> heater_change_source s \<noteq> ''user_command''
       then le16 d AND 0x0020 \<noteq> 0 else heater_on s)
    \<and> heater_on (process_notification (Some d) ''user_command'' now s)
        = (le16 d AND 0x0020 \<noteq> 0)"
  using assms by (simp add: heater_on_process heater_update_allowed_def)

theorem override_protection_witness:
  "2 \<le> length [0x00, 0x00 :: byte] \<and>
   heater_on (process_notification (Some [0x00, 0x00]) ''notification'' 103 recent_user_state) \<and>
   \<not> heater_on (process_notification (Some [0x00, 0x00]) ''notification'' 106 recent_user_state) \<and>
   \<not> heater_on (process_notification (Some [0x00, 0x00]) ''user_command'' 103 recent_user_state)"
  using override_protection [of "[0x00, 0x00]" 103 recent_user_state]
    override_protection [of "[0x00, 0x00]" 106 recent_user_state]
  by (simp add: le16_Cons recent_user_state_def init_volcano_def)

text \<open>
  Claim C2. For a payload of at least two bytes, \<open>data[0] + data[1] * 256\<close> is the value of
  the first two bytes read as a little-endian 16-bit word \<open>v\<close>; the fan flag becomes
  \<open>(v & 0x2000) != 0\<close>, and the heater flag, whenever the override window lets it be
  applied, becomes \<open>(v & 0x0020) != 0\<close>. On a freshly initialised device the bytes
  \<open>0x20 0x00\<close> give heater on and fan off, the bytes \<open>0x00 0x20\<close> fan on and heater off.
\<close>

theorem status_word_decoding:
  assumes "2 \<le> length d"
  shows "decoded_value d = uint (le16 d)
    \<and> fan_on (process_notification (Some d) source now s) = (le16 d AND 0x2000 \<noteq> 0)
    \<and> heater_on (process_notification (Some d) source now s) =
        (if heater_update_allowed source now s then le16 d AND 0x0020 \<noteq> 0 else heater_on s)"
  using assms by (simp add: decoded_value_le16 fan_on_process heater_on_process)

theorem status_word_decoding_witness:
  "2 \<le> length [0x20, 0x00 :: byte] \<and>
   heater_on (process_notification (Some [0x20, 0x00]) ''notification'' 7 init_volcano) \<and>
   \<not> fan_on (process_notification (Some [0x20, 0x00]) ''notification'' 7 init_volcano) \<and>
   fan_on (process_notification (Some [0x00, 0x20]) ''notification'' 7 init_volcano) \<and>
   \<not> heater_on (process_notification (Some [0x00, 0x20]) ''notification'' 7 init_volcano)"
  using status_word_decoding [of "[0x20, 0x00]" "''notification''" 7 init_volcano]
    status_word_decoding [of "[0x00, 0x20]" "''notification''" 7 init_volcano]
  by (simp add: le16_Cons heater_update_allowed_def init_volcano_def)

section \<open>Properties of the temperature channel\<close>

lemma py_round_div10_exact: "py_round_div10 (t * 10) = t"
  by (simp add: py_round_div10_def)

lemma decoded_value_pack:
  assumes "0 \<le> x" "x < 65536"
  shows "decoded_value (word_of_int x # word_of_int (x div 256) # r) = x"
proof -
  have h: "x div 256 < 256" using assms by simp
  have l: "0 \<le> x div 256" using assms by simp
  have "uint (word_of_int x :: byte) = x mod 256"
    by (simp add: uint_word_of_int_eq take_bit_eq_mod)
  moreover have "uint (word_of_int (x div 256) :: byte) = x div 256"
    using h l by (simp add: uint_word_of_int_eq take_bit_int_eq_self)
  ultimately show ?thesis
    by (simp add: decoded_value_def)
qed

lemma pack_u32_le_decodes:
  assumes "0 \<le> x" and "x < 65536"
  shows "\<exists>p. pack_u32_le x = Inr p \<and> decoded_value p = x \<and> 2 \<le> length p"
proof -
  have "x < 2 ^ 32" using assms by simp
  then show ?thesis
    using assms decoded_value_pack [of x] by (simp add: pack_u32_le_def)
qed

lemma fast_read_target_decodes:
  assumes "is_connected s" and "client s" and "2 \<le> length p"
  shows "fast_read_target_temperature (Inr p) now s
      = Inr (py_round_div10 (decoded_value p),
             s\<lparr>last_command_time := now, target_temperature_raw := raw_of p,
                target_temperature := py_round_div10 (decoded_value p)\<rparr>)"
  using assms
  by (simp add: fast_read_target_temperature_def fast_read_target_body_def
      read_gatt_char_def Let_def)

text \<open>
  Claim C3. For a temperature \<open>t\<close> in \<open>[40, 230]\<close>, \<open>set_target_temperature(t)\<close> on a
  connected device submits a payload whose first two bytes decode to \<open>t * 10\<close>, and
  \<open>read_target_temperature()\<close>, reading that same payload back from the transport,
  returns exactly \<open>t\<close>: from the state the write left, and from any other connected state,
  whatever target it had cached.
\<close>

theorem set_then_read_target:
  assumes "40 \<le> t" and "t \<le> 230" and "is_connected s" and "client s"
  shows "\<exists>p s'. set_target_temperature t (Inr ok) s = Inr (p, s')
           \<and> decoded_value p = t * 10
           \<and> (\<forall>conn r2 now. \<exists>s''.
                 read_target_temperature (Inr p) conn r2 now s' = Inr (t, s''))
           \<and> (\<forall>conn r2 now s2. is_connected s2 \<and> client s2 \<longrightarrow>
                 (\<exists>s''. read_target_temperature (Inr p) conn r2 now s2 = Inr (t, s'')))"
proof -
  let ?s' = "s\<lparr>target_temperature := t\<rparr>"
  have clamp: "max 40 (min 230 t) = t" using assms by simp
  obtain p where pack: "pack_u32_le (t * 10) = Inr p"
    and dec: "decoded_value p = t * 10" and len: "2 \<le> length p"
    using pack_u32_le_decodes [of "t * 10"] assms by auto
  have set: "set_target_temperature t (Inr ok) s = Inr (p, ?s')"
    by (simp add: set_target_temperature_def clamp pack)
  have pos: "0 < t" using assms by simp
  have any: "\<exists>s''. read_target_temperature (Inr p) conn r2 now s2 = Inr (t, s'')"
    if "is_connected s2" and "client s2" for conn r2 now s2
    using pos fast_read_target_decodes [OF that len, of now]
    by (simp add: read_target_temperature_def dec py_round_div10_exact)
  have "\<exists>s''. read_target_temperature (Inr p) conn r2 now ?s' = Inr (t, s'')" for conn r2 now
    using any [of ?s'] assms by simp
  with set dec any show ?thesis by blast
qed

theorem set_then_read_target_witness:
  "(40::int) \<le> 185 \<and> (185::int) \<le> 230 \<and> is_connected connected_fresh \<and> client connected_fresh
   \<and> (\<exists>p s'. set_target_temperature 185 (Inr True) connected_fresh = Inr (p, s')
           \<and> decoded_value p = 185 * 10
           \<and> (\<forall>conn r2 now. \<exists>s''.
                 read_target_temperature (Inr p) conn r2 now s' = Inr (185, s''))
           \<and> (\<forall>conn r2 now s2. is_connected s2 \<and> client s2 \<longrightarrow>
                 (\<exists>s''. read_target_temperature (Inr p) conn r2 now s2 = Inr (185, s''))))"
  using set_then_read_target [of 185 connected_fresh True]
  by (simp add: connected_fresh_def init_volcano_def)

lemma fast_read_current_returns: "\<exists>r. fast_read_current_temperature rd now s = Inr r"
  by (simp add: fast_read_current_temperature_def split: sum.splits)











section \<open>Properties of the reconnect procedure\<close>






section \<open>Properties of the auto-off decoding\<close>

lemma auto_off_two_bytes:
  assumes "2 \<le> length v"
  shows "auto_off_seconds (Some v) =
    (let m = decoded_value v;
         m' = (if m > 180 \<and> m mod 60 = 0 then m div 60 else m)
     in (if m' < 1 \<or> m' > 180 then 30 else m') * 60)"
  using assms by (auto simp add: auto_off_seconds_def Let_def)

lemma auto_off_one_byte: "length v = 1 \<Longrightarrow> auto_off_seconds (Some v) = 30 * 60"
  by (simp add: auto_off_seconds_def)

text \<open>
  Claim C7. The decoding of a two-byte value is as claimed: \<open>0x3C 0x00\<close> gives 60 minutes
  and \<open>0xB4 0x04\<close> (1204, not a multiple of 60) the default of 30 minutes. A one-byte
  value is not decoded: the single byte \<open>0x3C\<close> read from the device gives the
  default of 30 minutes (1800 seconds), not 60 minutes.
\<close>

theorem single_byte_auto_off_defaults:
  "auto_off_time_seconds
      (read_auto_off_time True (Inr [0x3C]) False (Inl BleakError) connected_fresh) = 30 * 60
   \<and> auto_off_seconds (Some [0x3C]) = 30 * 60
   \<and> auto_off_seconds (Some [0x3C, 0x00]) = 60 * 60
   \<and> auto_off_seconds (Some [0xB4, 0x04]) = 30 * 60"
  by (simp add: read_auto_off_time_def auto_off_seconds_def characteristic_exists_def
      read_gatt_char_def decoded_value_def connected_fresh_def init_volcano_def)

section \<open>Properties of the brightness animation\<close>

lemmas anim_names = ANIMATION_BLINKING_def ANIMATION_BREATHING_def ANIMATION_ASCENDING_def
  ANIMATION_DESCENDING_def

lemma breathing_state_bounds:
  "\<exists>b inc sl. animation_state ANIMATION_BREATHING n = Some (b, inc, sl) \<and> 0 \<le> b \<and> b \<le> 100"
proof (induction n)
  case 0
  show ?case
    by (rule exI [of _ 0], rule exI [of _ True], rule exI [of _ "1 / 10"]) simp
next
  case (Suc n)
  then obtain b inc sl where "animation_state ANIMATION_BREATHING n = Some (b, inc, sl)"
    by blast
  then show ?case
    by (simp add: animation_step_def Let_def anim_names)
qed

text \<open>
  Claim C9. In the breathing pattern, started at brightness 0 and stepping by 8, every
  pass of the loop produces a brightness between 0 and 100, and the direction flag flips
  in a pass exactly when the brightness that pass produces is 0 or 100.
\<close>

theorem breathe_stays_in_range:
  "\<exists>b inc sl b' inc' sl'.
      animation_state ANIMATION_BREATHING n = Some (b, inc, sl)
    \<and> animation_state ANIMATION_BREATHING (Suc n) = Some (b', inc', sl')
    \<and> 0 \<le> b' \<and> b' \<le> 100
    \<and> (inc' \<noteq> inc) = (b' = 0 \<or> b' = 100)"
proof -
  obtain b inc sl where st: "animation_state ANIMATION_BREATHING n = Some (b, inc, sl)"
    and "0 \<le> b" and "b \<le> 100"
    using breathing_state_bounds [of n] by blast
  then show ?thesis
    by (auto simp add: animation_step_def Let_def anim_names)
qed

theorem breathe_stays_in_range_witness:
  "animation_state ANIMATION_BREATHING 12 = Some (96, True, 1 / 10)
   \<and> animation_state ANIMATION_BREATHING 13 = Some (100, False, 1 / 10)
   \<and> animation_state ANIMATION_BREATHING 14 = Some (92, False, 1 / 10)
   \<and> (\<exists>b inc sl b' inc' sl'.
        animation_state ANIMATION_BREATHING 12 = Some (b, inc, sl)
      \<and> animation_state ANIMATION_BREATHING (Suc 12) = Some (b', inc', sl')
      \<and> 0 \<le> b' \<and> b' \<le> 100
      \<and> (inc' \<noteq> inc) = (b' = 0 \<or> b' = 100))"
proof -
  have "animation_state ANIMATION_BREATHING 12 = Some (96, True, 1 / 10)"
    by (simp add: eval_nat_numeral animation_step_def anim_names)
  moreover from this have "animation_state ANIMATION_BREATHING 13 = Some (100, False, 1 / 10)"
    by (simp add: eval_nat_numeral animation_step_def anim_names)
  moreover from this have "animation_state ANIMATION_BREATHING 14 = Some (92, False, 1 / 10)"
    by (simp add: eval_nat_numeral animation_step_def anim_names)
  ultimately show ?thesis
    using breathe_stays_in_range [of 12] by blast
qed

section \<open>Properties of the command processor\<close>

lemma processor_stopped_when_down:
  "\<not> is_connected s \<Longrightarrow>
   process_command_queue ts s = Some (s\<lparr>command_processor_running := False\<rparr>)"
  by (cases ts) simp_all

lemma queue_command_no_restart:
  assumes "processing_commands s" and "\<not> command_processor_running s"
  shows "queue_command c s = s\<lparr>command_queue := command_queue s @ [c]\<rparr>"
  using assms by (simp add: queue_command_def)

text \<open>
  Claim C4, as stated, fails. Two commands are queued on a connected device and the write
  of the first one fails. However many further passes the environment would allow, and
  although their writes would succeed, the processor ends after the first pass: the first
  future holds the error, the connection is marked down, and the second command is still
  in the queue with its future unresolved. It was not attempted.
\<close>

theorem later_command_not_attempted:
  "process_command_queue [failing_pass, working_pass, working_pass] two_queued
     = Some (two_queued\<lparr>command_queue := [(fan_on_uuid, [0], 1)], is_connected := False,
              futures := (futures two_queued)(0 \<mapsto> Inl BleakError),
              command_processor_running := False\<rparr>)
   \<and> futures two_queued 1 = None
   \<and> ((futures two_queued)(0 \<mapsto> Inl BleakError)) 1 = None"
  by (simp add: two_queued_def failing_pass_def working_pass_def connected_fresh_def
      init_volcano_def execute_command_def ensure_connected_def write_gatt_char_def)

text \<open>
  Claim C4, amended. When the write of a queued command fails, the connection is marked
  down and the error is set on that command's future only. The processor loop, which runs
  only while the connection is marked up, then ends, whatever passes might have followed:
  the commands queued after the failed one stay in the queue, unattempted, and their
  futures are as they were.
\<close>

theorem processor_stops_after_write_failure:
  assumes "processing_commands s" and "is_connected s" and "client s"
    and "command_queue s = (u, d, fut) # rest"
    and "tick_write t = Inl e" and "e \<noteq> CancelledError"
  shows "process_command_queue (t # ts) s =
      Some (s\<lparr>command_queue := rest, is_connected := False,
               futures := (futures s)(fut \<mapsto> Inl e), command_processor_running := False\<rparr>)"
proof -
  let ?s0 = "s\<lparr>command_queue := rest\<rparr>"
  have ex: "execute_command u d (tick_connect t) (tick_write t) (tick_now t) ?s0
      = Inl (e, ?s0\<lparr>is_connected := False\<rparr>)"
    using assms
    by (simp add: execute_command_def ensure_connected_def write_gatt_char_def)
  show ?thesis
    using assms ex by (simp add: processor_stopped_when_down)
qed

theorem processor_stops_after_write_failure_witness:
  "processing_commands two_queued \<and> is_connected two_queued \<and> client two_queued
   \<and> command_queue two_queued = (heat_on_uuid, [0], 0) # [(fan_on_uuid, [0], 1)]
   \<and> tick_write failing_pass = Inl BleakError \<and> BleakError \<noteq> CancelledError
   \<and> process_command_queue [failing_pass, working_pass] two_queued =
       Some (two_queued\<lparr>command_queue := [(fan_on_uuid, [0], 1)], is_connected := False,
               futures := (futures two_queued)(0 \<mapsto> Inl BleakError),
               command_processor_running := False\<rparr>)"
proof -
  have a: "processing_commands two_queued" "is_connected two_queued" "client two_queued"
    "command_queue two_queued = (heat_on_uuid, [0], 0) # [(fan_on_uuid, [0], 1)]"
    by (simp_all add: two_queued_def connected_fresh_def init_volcano_def)
  have b: "tick_write failing_pass = Inl BleakError"
    by (simp add: failing_pass_def)
  have c: "BleakError \<noteq> CancelledError"
    by simp
  show ?thesis
    using a b c processor_stops_after_write_failure [OF a b c, of "[working_pass]"]
    by simp
qed

end
